theory Spec2Isabelle
  imports Complex_Main
begin

section \<open>Relational store: values, rows and tables (supabase\_schema.sql)\<close>

text \<open>
  UUIDs are opaque tokens; they are modelled as natural numbers, the all-zero UUID
  \<^verbatim>\<open>'00000000-0000-0000-0000-000000000000'\<close> being \<open>0\<close>. A nullable column is an
  \<open>option\<close> (\<open>None\<close> is SQL NULL). Errors raised by a statement are values of
  \<open>sql_error\<close>; a function of the trigger layer returns \<open>sql_error + database\<close>, and an
  error aborts the enclosing mutation.
\<close>

type_synonym uuid = nat

definition nil_uuid :: uuid where
  "nil_uuid = 0"

datatype sql_error =
    not_null_violation string
  | check_violation string
  | unique_violation string
  | undefined_field string string
  | feature_not_supported string
  | insufficient_privilege string
  | foreign_key_violation string

datatype jsonb = JNull | JBool bool | JString string

type_synonym jsonb_object = "(string \<times> jsonb) list"

record users_row =
  u_id :: uuid
  u_email :: string
  u_full_name :: string
  u_role :: string

record documents_row =
  d_id :: uuid
  d_name :: string
  d_created_by :: "uuid option"
  d_requires_admin_approval :: "bool option"
  d_admin_approved :: "bool option"
  d_admin_approved_by :: "uuid option"
  d_status :: string

record document_comments_row =
  c_id :: uuid
  c_document_id :: "uuid option"
  c_user_id :: "uuid option"
  c_comment :: string

text \<open>
  A row of \<^verbatim>\<open>notifications\<close> as the trigger layer writes it: the six columns of the
  INSERT column list and \<^verbatim>\<open>read\<close>, which takes its default FALSE. The columns
  \<^verbatim>\<open>id\<close>, \<^verbatim>\<open>created_at\<close> and \<^verbatim>\<open>updated_at\<close> are filled by
  \<^verbatim>\<open>gen_random_uuid()\<close> and \<^verbatim>\<open>NOW()\<close> and are left out here.
\<close>

record notifications_row =
  n_user_id :: uuid
  n_document_id :: "uuid option"
  n_title :: string
  n_message :: string
  n_type :: string
  n_data :: jsonb_object
  n_read :: bool

text \<open>The values a SELECT hands to the INSERT, before the table's constraints are checked.\<close>

record new_notification =
  nn_user_id :: "uuid option"
  nn_document_id :: "uuid option"
  nn_title :: "string option"
  nn_message :: "string option"
  nn_type :: "string option"
  nn_data :: jsonb_object

record document_signatories_row =
  s_id :: uuid
  s_document_id :: "uuid option"
  s_name :: string
  s_position :: "string option"
  s_email :: "string option"
  s_phone :: "string option"
  s_is_signed :: "bool option"
  s_signed_at :: "nat option"
  s_notes :: "string option"
  s_order_index :: int
  s_created_at :: "nat option"
  s_updated_at :: "nat option"

record document_activity_row =
  a_document_id :: uuid
  a_user_id :: uuid
  a_action :: string
  a_description :: string

record database =
  tbl_users :: "users_row list"
  tbl_documents :: "documents_row list"
  tbl_document_signatories :: "document_signatories_row list"
  tbl_document_comments :: "document_comments_row list"
  tbl_document_activity :: "document_activity_row list"
  tbl_notifications :: "notifications_row list"

subsection \<open>SQL expressions\<close>

text \<open>\<^verbatim>\<open>a || b\<close> on TEXT: NULL as soon as one operand is NULL.\<close>

definition text_concat :: "string option \<Rightarrow> string option \<Rightarrow> string option" where
  "text_concat a b =
     (case a of None \<Rightarrow> None
      | Some x \<Rightarrow> (case b of None \<Rightarrow> None | Some y \<Rightarrow> Some (x @ y)))"

text \<open>
  \<^verbatim>\<open>a != b\<close> in three-valued logic: the result is NULL (\<open>None\<close>) when an operand is
  NULL. An IF or a WHERE takes its branch or keeps its row only on \<open>Some True\<close>.
\<close>

definition sql_ne :: "'a option \<Rightarrow> 'a option \<Rightarrow> bool option" where
  "sql_ne a b =
     (case a of None \<Rightarrow> None
      | Some x \<Rightarrow> (case b of None \<Rightarrow> None | Some y \<Rightarrow> Some (x \<noteq> y)))"

definition coalesce :: "'a option \<Rightarrow> 'a \<Rightarrow> 'a" where
  "coalesce a d = (case a of None \<Rightarrow> d | Some x \<Rightarrow> x)"

text \<open>\<^verbatim>\<open>ARRAY_AGG(DISTINCT x)\<close>: NULL over no rows, else the distinct values.\<close>

definition array_agg_distinct :: "'a list \<Rightarrow> 'a list option" where
  "array_agg_distinct xs = (if xs = [] then None else Some (remdups xs))"

definition jsonb_text :: "string option \<Rightarrow> jsonb" where
  "jsonb_text v = (case v of None \<Rightarrow> JNull | Some s \<Rightarrow> JString s)"

definition jsonb_bool :: "bool option \<Rightarrow> jsonb" where
  "jsonb_bool v = (case v of None \<Rightarrow> JNull | Some b \<Rightarrow> JBool b)"

text \<open>\<^verbatim>\<open>SELECT full_name INTO v FROM users WHERE id = x\<close>: NULL when no row matches.\<close>

definition select_full_name :: "database \<Rightarrow> uuid option \<Rightarrow> string option" where
  "select_full_name db x =
     map_option u_full_name (find (\<lambda>u. Some (u_id u) = x) (tbl_users db))"

subsection \<open>INSERT INTO notifications\<close>

definition notification_types :: "string list" where
  "notification_types =
     [''document_created'', ''document_deleted'', ''status_updated'',
      ''signature_added'', ''admin_approval'', ''comment_added'']"

text \<open>The NOT NULL columns and the CHECK on \<^verbatim>\<open>type\<close>, for one row.\<close>

definition check_notification :: "new_notification \<Rightarrow> sql_error + notifications_row" where
  "check_notification v =
     (case nn_user_id v of None \<Rightarrow> Inl (not_null_violation ''user_id'')
      | Some uid \<Rightarrow>
     (case nn_title v of None \<Rightarrow> Inl (not_null_violation ''title'')
      | Some t \<Rightarrow>
     (case nn_message v of None \<Rightarrow> Inl (not_null_violation ''message'')
      | Some m \<Rightarrow>
     (case nn_type v of None \<Rightarrow> Inl (not_null_violation ''type'')
      | Some ty \<Rightarrow>
        if ty \<in> set notification_types
        then Inr \<lparr>n_user_id = uid, n_document_id = nn_document_id v, n_title = t,
                  n_message = m, n_type = ty, n_data = nn_data v, n_read = False\<rparr>
        else Inl (check_violation ''notifications_type_check'')))))"

fun check_notifications :: "new_notification list \<Rightarrow> sql_error + notifications_row list" where
  "check_notifications [] = Inr []"
| "check_notifications (v # vs) =
     (case check_notification v of Inl e \<Rightarrow> Inl e
      | Inr r \<Rightarrow> (case check_notifications vs of Inl e \<Rightarrow> Inl e | Inr rs \<Rightarrow> Inr (r # rs)))"

definition insert_notifications :: "database \<Rightarrow> new_notification list \<Rightarrow> sql_error + database" where
  "insert_notifications db vs =
     (case check_notifications vs of Inl e \<Rightarrow> Inl e
      | Inr rs \<Rightarrow> Inr (db\<lparr>tbl_notifications := tbl_notifications db @ rs\<rparr>))"

section \<open>Notification functions\<close>

text \<open>
  \<^verbatim>\<open>create_notification_for_users\<close>: one row per row of \<^verbatim>\<open>users\<close> whose id differs
  from \<^verbatim>\<open>COALESCE(p_exclude_user_id, nil)\<close>. \<^verbatim>\<open>users.id\<close> is a primary key and never
  NULL, so the comparison is two-valued.
\<close>

definition create_notification_for_users ::
  "database \<Rightarrow> string option \<Rightarrow> string option \<Rightarrow> string option \<Rightarrow> uuid option \<Rightarrow>
   jsonb_object \<Rightarrow> uuid option \<Rightarrow> sql_error + database" where
  "create_notification_for_users db p_title p_message p_type p_document_id p_data p_exclude_user_id =
     insert_notifications db
       (map (\<lambda>u. \<lparr>nn_user_id = Some (u_id u), nn_document_id = p_document_id,
                   nn_title = p_title, nn_message = p_message, nn_type = p_type,
                   nn_data = p_data\<rparr>)
            (filter (\<lambda>u. u_id u \<noteq> coalesce p_exclude_user_id nil_uuid) (tbl_users db)))"

text \<open>
  \<^verbatim>\<open>create_notification_for_document_users\<close>. The array \<^verbatim>\<open>all_users\<close> is the
  document's creator, then the distinct ids of the admin-role users, then the distinct
  commenters of the document.
\<close>

definition doc_creator :: "database \<Rightarrow> uuid option \<Rightarrow> uuid option" where
  "doc_creator db p_document_id =
     (case find (\<lambda>d. Some (d_id d) = p_document_id) (tbl_documents db) of
        None \<Rightarrow> None | Some d \<Rightarrow> d_created_by d)"

definition signatory_users :: "database \<Rightarrow> uuid option list option" where
  "signatory_users db =
     array_agg_distinct (map (\<lambda>u. Some (u_id u)) (filter (\<lambda>u. u_role u = ''admin'') (tbl_users db)))"

definition commenter_users :: "database \<Rightarrow> uuid option \<Rightarrow> uuid option list option" where
  "commenter_users db p_document_id =
     array_agg_distinct
       (map c_user_id
          (filter (\<lambda>c. p_document_id \<noteq> None \<and> c_document_id c = p_document_id)
             (tbl_document_comments db)))"

definition all_users :: "database \<Rightarrow> uuid option \<Rightarrow> uuid option list" where
  "all_users db p_document_id =
     [doc_creator db p_document_id] @ coalesce (signatory_users db) []
       @ coalesce (commenter_users db p_document_id) []"

text \<open>
  The INSERT of this function selects \<^verbatim>\<open>DISTINCT unnest(all_users)\<close> and filters with
  \<^verbatim>\<open>WHERE unnest(all_users) != ... AND unnest(all_users) IS NOT NULL\<close>. PostgreSQL
  accepts a set-returning function in the select list and refuses it in WHERE when it
  analyses the statement, which PL/pgSQL does when the statement is first run: the
  three preceding statements have read only, and the call ends with the error.
\<close>

definition create_notification_for_document_users ::
  "database \<Rightarrow> string option \<Rightarrow> string option \<Rightarrow> string option \<Rightarrow> uuid option \<Rightarrow>
   jsonb_object \<Rightarrow> uuid option \<Rightarrow> sql_error + database" where
  "create_notification_for_document_users db p_title p_message p_type p_document_id p_data p_exclude_user_id =
     (let select_list = all_users db p_document_id;
          where_clause_unnest = all_users db p_document_id
      in Inl (feature_not_supported ''set-returning functions are not allowed in WHERE''))"

section \<open>Notification triggers\<close>

definition notify_document_created :: "database \<Rightarrow> documents_row \<Rightarrow> sql_error + database" where
  "notify_document_created db NEW =
     (let creator_name = select_full_name db (d_created_by NEW)
      in create_notification_for_users db
           (Some ''New Document Created'')
           (text_concat (text_concat creator_name (Some '' created a new document: ''))
              (Some (d_name NEW)))
           (Some ''document_created'')
           (Some (d_id NEW))
           [(''document_name'', JString (d_name NEW)), (''creator'', jsonb_text creator_name)]
           (d_created_by NEW))"

text \<open>\<open>auth_uid\<close> is \<^verbatim>\<open>auth.uid()\<close>, the acting user (NULL outside a session).\<close>

definition notify_status_updated ::
  "database \<Rightarrow> uuid option \<Rightarrow> documents_row \<Rightarrow> documents_row \<Rightarrow> sql_error + database" where
  "notify_status_updated db auth_uid OLD NEW =
     (if sql_ne (d_admin_approved OLD) (d_admin_approved NEW) = Some True then
        (let updater_name = select_full_name db auth_uid;
             status_text =
               (if d_admin_approved NEW = Some True then ''approved''
                else if d_admin_approved NEW = Some False then ''rejected''
                else ''pending review'')
         in create_notification_for_document_users db
              (Some ''Document Status Updated'')
              (text_concat
                 (Some (''Document \"'' @ d_name NEW @ ''\" has been '' @ status_text @ '' by ''))
                 updater_name)
              (Some ''status_updated'')
              (Some (d_id NEW))
              [(''document_name'', JString (d_name NEW)), (''status'', JString status_text),
               (''updater'', jsonb_text updater_name),
               (''admin_approved'', jsonb_bool (d_admin_approved NEW))]
              auth_uid)
      else Inr db)"

text \<open>
  The trigger on \<^verbatim>\<open>document_signatories\<close> reads OLD and NEW by field name. A trigger
  function is not bound to a table: its records carry the columns of the table the
  trigger is attached to, and a field that the record lacks is an error when the
  expression is prepared, before any part of it is evaluated.
\<close>

datatype sql_value = VNull | VBool bool | VText string | VUuid uuid | VTimestamp nat | VInt int

type_synonym pg_record = "(string \<times> sql_value) list"

definition document_signatories_columns :: "string list" where
  "document_signatories_columns =
     [''id'', ''document_id'', ''name'', ''position'', ''email'', ''phone'', ''is_signed'',
      ''signed_at'', ''notes'', ''order_index'', ''created_at'', ''updated_at'']"

definition record_field :: "string \<Rightarrow> pg_record \<Rightarrow> string \<Rightarrow> sql_error + sql_value" where
  "record_field rname r f =
     (case map_of r f of None \<Rightarrow> Inl (undefined_field rname f) | Some v \<Rightarrow> Inr v)"

definition value_ne :: "sql_value \<Rightarrow> sql_value \<Rightarrow> bool option" where
  "value_ne a b = (if a = VNull \<or> b = VNull then None else Some (a \<noteq> b))"

text \<open>\<^verbatim>\<open>a IS DISTINCT FROM b\<close>: NULL is an ordinary value, the result is never NULL.\<close>

definition is_distinct_from :: "sql_value \<Rightarrow> sql_value \<Rightarrow> bool" where
  "is_distinct_from a b = (a \<noteq> b)"

definition value_text :: "sql_value \<Rightarrow> string option" where
  "value_text v = (case v of VText s \<Rightarrow> Some s | _ \<Rightarrow> None)"

definition value_uuid :: "sql_value \<Rightarrow> uuid option" where
  "value_uuid v = (case v of VUuid i \<Rightarrow> Some i | _ \<Rightarrow> None)"

definition select_document_name :: "database \<Rightarrow> uuid option \<Rightarrow> string option" where
  "select_document_name db x =
     map_option d_name (find (\<lambda>d. Some (d_id d) = x) (tbl_documents db))"

definition notify_signature_updated ::
  "database \<Rightarrow> pg_record \<Rightarrow> pg_record \<Rightarrow> sql_error + database" where
  "notify_signature_updated db OLD NEW =
     (case record_field ''old'' OLD ''signed_at'' of Inl e \<Rightarrow> Inl e | Inr old_signed_at \<Rightarrow>
     (case record_field ''new'' NEW ''signed_at'' of Inl e \<Rightarrow> Inl e | Inr new_signed_at \<Rightarrow>
     (case record_field ''old'' OLD ''status'' of Inl e \<Rightarrow> Inl e | Inr old_status \<Rightarrow>
     (case record_field ''new'' NEW ''status'' of Inl e \<Rightarrow> Inl e | Inr new_status \<Rightarrow>
        if is_distinct_from old_signed_at new_signed_at \<or> value_ne old_status new_status = Some True then
          (case record_field ''new'' NEW ''document_id'' of Inl e \<Rightarrow> Inl e | Inr document_id \<Rightarrow>
          (case record_field ''new'' NEW ''name'' of Inl e \<Rightarrow> Inl e | Inr name \<Rightarrow>
          (case record_field ''new'' NEW ''position'' of Inl e \<Rightarrow> Inl e | Inr position \<Rightarrow>
             (let doc_name = select_document_name db (value_uuid document_id);
                  signatory_name = value_text name;
                  status_text =
                    (if new_status = VText ''signed'' then ''signed''
                     else if new_status = VText ''rejected'' then ''rejected''
                     else ''pending'')
              in create_notification_for_document_users db
                   (Some ''Signature Update'')
                   (text_concat
                      (text_concat
                         (text_concat signatory_name
                            (Some ('' has '' @ status_text @ '' the document \"'')))
                         doc_name)
                      (Some ''\"''))
                   (Some ''signature_added'')
                   (value_uuid document_id)
                   [(''document_name'', jsonb_text doc_name),
                    (''signatory_name'', jsonb_text signatory_name),
                    (''status'', JString status_text),
                    (''position'', jsonb_text (value_text position))]
                   None))))
        else Inr db))))"

section \<open>Row-level policies and the statements of the details page\<close>












section \<open>Client notification store (NotificationContext.jsx)\<close>

text \<open>
  A notification as the client receives it from the store, and the React state of the
  provider. \<open>unreadCount\<close> is a JavaScript number, hence an \<open>int\<close>. The store is the list of
  rows of \<^verbatim>\<open>notifications\<close>; a call to it either returns an error, after which the
  catch block leaves the state alone, or takes effect on the rows that the row-level
  policy lets the caller touch (its own).
\<close>

record notification =
  nt_id :: uuid
  nt_user_id :: uuid
  nt_title :: string
  nt_read :: bool
  nt_created_at :: nat

record notification_state =
  notifications :: "notification list"
  unreadCount :: int
  user :: "uuid option"

type_synonym app = "notification list \<times> notification_state"

definition owned_by :: "uuid option \<Rightarrow> notification \<Rightarrow> bool" where
  "owned_by uid n = (uid = Some (nt_user_id n))"

definition loadNotifications :: "string option \<Rightarrow> app \<Rightarrow> app" where
  "loadNotifications error a =
     (let store = fst a; st = snd a
      in if user st = None then a
         else case error of Some e \<Rightarrow> a
           | None \<Rightarrow>
               (let data = take 50 (rev (sort_key nt_created_at (filter (owned_by (user st)) store)))
                in (store, st\<lparr>notifications := data,
                              unreadCount := int (length (filter (\<lambda>n. \<not> nt_read n) data))\<rparr>)))"

definition markAsRead :: "uuid \<Rightarrow> string option \<Rightarrow> app \<Rightarrow> app" where
  "markAsRead notificationId error a =
     (let store = fst a; st = snd a
      in case error of Some e \<Rightarrow> a
         | None \<Rightarrow>
             (map (\<lambda>n. if nt_id n = notificationId \<and> owned_by (user st) n
                        then n\<lparr>nt_read := True\<rparr> else n) store,
              st\<lparr>notifications :=
                    map (\<lambda>n. if nt_id n = notificationId then n\<lparr>nt_read := True\<rparr> else n)
                      (notifications st),
                  unreadCount := max 0 (unreadCount st - 1)\<rparr>))"

definition markAllAsRead :: "string option \<Rightarrow> app \<Rightarrow> app" where
  "markAllAsRead error a =
     (let store = fst a; st = snd a
      in if user st = None then a
         else case error of Some e \<Rightarrow> a
           | None \<Rightarrow>
               (map (\<lambda>n. if owned_by (user st) n \<and> \<not> nt_read n then n\<lparr>nt_read := True\<rparr> else n)
                  store,
                st\<lparr>notifications := map (\<lambda>n. n\<lparr>nt_read := True\<rparr>) (notifications st),
                    unreadCount := 0\<rparr>))"

text \<open>
  \<^verbatim>\<open>deleteNotification\<close> filters the current cache and adjusts the current counter, and
  it looks the notification up in \<^verbatim>\<open>notifications\<close>, the array of the render in which
  the handler was created: \<open>captured\<close>. A handler called before the next render, such as
  the second of two quick clicks, still holds the array of the earlier state.
\<close>

definition deleteNotification :: "uuid \<Rightarrow> notification list \<Rightarrow> string option \<Rightarrow> app \<Rightarrow> app" where
  "deleteNotification notificationId captured error a =
     (let store = fst a; st = snd a
      in case error of Some e \<Rightarrow> a
         | None \<Rightarrow>
             (filter (\<lambda>n. \<not> (nt_id n = notificationId \<and> owned_by (user st) n)) store,
              st\<lparr>notifications := filter (\<lambda>n. nt_id n \<noteq> notificationId) (notifications st),
                  unreadCount :=
                    (case find (\<lambda>n. nt_id n = notificationId) captured of
                       Some n \<Rightarrow> if \<not> nt_read n then unreadCount st - 1 else unreadCount st
                     | None \<Rightarrow> unreadCount st)\<rparr>))"

definition clearAllNotifications :: "string option \<Rightarrow> app \<Rightarrow> app" where
  "clearAllNotifications error a =
     (let store = fst a; st = snd a
      in if user st = None then a
         else case error of Some e \<Rightarrow> a
           | None \<Rightarrow>
               (filter (\<lambda>n. \<not> owned_by (user st) n) store,
                st\<lparr>notifications := [], unreadCount := 0\<rparr>))"

text \<open>
  The callback of \<^verbatim>\<open>subscribeToNotifications\<close>, run for each INSERT event of the live
  channel; the inserted row is already in the store.
\<close>

definition on_insert_event :: "notification \<Rightarrow> app \<Rightarrow> app" where
  "on_insert_event newNotification a =
     (let store = fst a; st = snd a
      in (store, st\<lparr>notifications := newNotification # notifications st,
                    unreadCount := unreadCount st + 1\<rparr>))"

datatype store_operation =
    LoadNotifications "string option"
  | MarkAsRead uuid "string option"
  | MarkAllAsRead "string option"
  | DeleteNotification uuid "notification list" "string option"
  | ClearAllNotifications "string option"
  | InsertEvent notification

fun run_operation :: "store_operation \<Rightarrow> app \<Rightarrow> app" where
  "run_operation (LoadNotifications e) a = loadNotifications e a"
| "run_operation (MarkAsRead i e) a = markAsRead i e a"
| "run_operation (MarkAllAsRead e) a = markAllAsRead e a"
| "run_operation (DeleteNotification i c e) a = deleteNotification i c e a"
| "run_operation (ClearAllNotifications e) a = clearAllNotifications e a"
| "run_operation (InsertEvent n) a = on_insert_event n a"

text \<open>
  An operation whose handler belongs to the render of the current state: the array
  that \<^verbatim>\<open>deleteNotification\<close> consults is the current cache.
\<close>

definition current_render :: "store_operation \<Rightarrow> app \<Rightarrow> bool" where
  "current_render operation a =
     (case operation of DeleteNotification i c e \<Rightarrow> c = notifications (snd a) | _ \<Rightarrow> True)"

text \<open>The number of cached notifications with \<^verbatim>\<open>read = false\<close>, and a reconciled state.\<close>

definition cached_unread :: "notification_state \<Rightarrow> int" where
  "cached_unread st = int (length (filter (\<lambda>n. \<not> nt_read n) (notifications st)))"

definition reconciled :: "notification_state \<Rightarrow> bool" where
  "reconciled st = (unreadCount st = cached_unread st)"

section \<open>Push subscriptions\<close>

record push_subscriptions_row =
  ps_id :: uuid
  ps_user_id :: uuid
  ps_endpoint :: string
  ps_p256dh :: string
  ps_auth :: string

record subscriptionData =
  endpoint :: string
  p256dh :: string
  auth :: string

text \<open>
  \<^verbatim>\<open>supabase.from('push_subscriptions').upsert({user_id, endpoint, p256dh, auth})\<close>, with
  no \<^verbatim>\<open>onConflict\<close> option: the request is an INSERT whose conflict target is the
  primary key, \<^verbatim>\<open>ON CONFLICT (id) DO UPDATE\<close>. The payload has no \<^verbatim>\<open>id\<close>, so the row
  takes a generated one (\<open>new_id\<close>). A row that collides on \<^verbatim>\<open>UNIQUE(user_id, endpoint)\<close>
  and not on the conflict target is a unique violation.
\<close>

definition same_pair :: "push_subscriptions_row \<Rightarrow> push_subscriptions_row \<Rightarrow> bool" where
  "same_pair r x = (ps_user_id x = ps_user_id r \<and> ps_endpoint x = ps_endpoint r)"

definition upsert :: "uuid \<Rightarrow> uuid \<Rightarrow> subscriptionData \<Rightarrow> push_subscriptions_row list \<Rightarrow>
    sql_error + push_subscriptions_row list" where
  "upsert new_id user_id v tbl =
     (let r = \<lparr>ps_id = new_id, ps_user_id = user_id, ps_endpoint = endpoint v,
                ps_p256dh = p256dh v, ps_auth = auth v\<rparr>
      in if list_ex (\<lambda>x. ps_id x = new_id) tbl then
           (if list_ex (\<lambda>x. ps_id x \<noteq> new_id \<and> same_pair r x) tbl
            then Inl (unique_violation ''push_subscriptions_user_id_endpoint_key'')
            else Inr (map (\<lambda>x. if ps_id x = new_id then r else x) tbl))
         else if list_ex (same_pair r) tbl
           then Inl (unique_violation ''push_subscriptions_user_id_endpoint_key'')
         else Inr (tbl @ [r]))"

record push_state =
  push_user :: "uuid option"
  serviceWorkerRegistration :: bool
  pushSubscription :: "subscriptionData option"
  push_toasts :: "string list"

text \<open>
  \<open>subscription\<close> is what \<^verbatim>\<open>pushManager.subscribe\<close> returns (\<open>None\<close> when it throws).
\<close>

definition setupPushSubscription ::
  "uuid \<Rightarrow> subscriptionData option \<Rightarrow> push_subscriptions_row list \<times> push_state \<Rightarrow>
   push_subscriptions_row list \<times> push_state" where
  "setupPushSubscription new_id subscription a =
     (let tbl = fst a; st = snd a
      in if \<not> serviceWorkerRegistration st then a
         else case push_user st of None \<Rightarrow> a
           | Some uid \<Rightarrow>
           (case subscription of
              None \<Rightarrow> (tbl, st\<lparr>push_toasts := push_toasts st @ [''Failed to set up push notifications'']\<rparr>)
            | Some sub \<Rightarrow>
              (case upsert new_id uid sub tbl of
                 Inl e \<Rightarrow>
                   (tbl, st\<lparr>push_toasts := push_toasts st @ [''Failed to set up push notifications'']\<rparr>)
               | Inr tbl' \<Rightarrow> (tbl', st\<lparr>pushSubscription := Some sub\<rparr>))))"

section \<open>JavaScript numbers\<close>

text \<open>
  A JavaScript number is an IEEE 754 binary64 value. The non-negative finite ones are
  written here as fractions \<open>(a, b)\<close> of integers with \<open>0 < b\<close>. \<open>fl\<close> rounds a
  non-negative fraction to the nearest value with a 53-bit significand, ties to the even
  significand; every quotient and product of the code below lies in the normal range,
  far from overflow and from the subnormals.
\<close>

type_synonym fraction = "int \<times> int"

function bit_length :: "int \<Rightarrow> nat" where
  "bit_length n = (if n \<le> 0 then 0 else Suc (bit_length (n div 2)))"
  by pat_completeness auto
termination
  by (relation "measure nat") auto

declare bit_length.simps [simp del]

definition round_half_even :: "int \<Rightarrow> int \<Rightarrow> int" where
  "round_half_even a b =
     (let q = a div b; r = a mod b
      in if 2 * r < b then q
         else if b < 2 * r then q + 1
         else if even q then q else q + 1)"

definition fl :: "fraction \<Rightarrow> fraction" where
  "fl x =
     (let a = fst x; b = snd x
      in if a = 0 then (0, 1)
         else
           let s = int (bit_length b) + 53 - int (bit_length a);
               num = (if 0 \<le> s then a * 2 ^ nat s else a);
               den = (if 0 \<le> s then b else b * 2 ^ nat (- s));
               over = (2 ^ 53 \<le> num div den);
               den' = (if over then 2 * den else den);
               s' = (if over then s - 1 else s);
               m = round_half_even num den'
           in if 0 \<le> s' then (m, 2 ^ nat s') else (m * 2 ^ nat (- s'), 1))"

text \<open>\<^verbatim>\<open>a / b\<close> on two integers below \<open>2^53\<close>, and \<^verbatim>\<open>x * k\<close> by such an integer.\<close>

definition js_div :: "int \<Rightarrow> int \<Rightarrow> fraction" where
  "js_div a b = fl (a, b)"

definition js_mul :: "fraction \<Rightarrow> int \<Rightarrow> fraction" where
  "js_mul x k = fl (fst x * k, snd x)"

text \<open>\<^verbatim>\<open>Math.round\<close>: the nearest integer, a tie going towards \<open>+\<infinity>\<close>.\<close>

definition Math_round :: "fraction \<Rightarrow> int" where
  "Math_round x = (2 * fst x + snd x) div (2 * snd x)"

section \<open>Document details (the DocumentDetails page)\<close>

record details_state =
  document :: documents_row
  signatories :: "document_signatories_row list"
  details_toasts :: "string list"

text \<open>JavaScript truthiness of \<^verbatim>\<open>sig.is_signed\<close>: \<^verbatim>\<open>null\<close> and \<^verbatim>\<open>false\<close> are falsy.\<close>

definition is_signed :: "document_signatories_row \<Rightarrow> bool" where
  "is_signed sig = (s_is_signed sig = Some True)"

text \<open>
  \<^verbatim>\<open>getSignatureProgress\<close> of the details page, on the page's \<^verbatim>\<open>signatories\<close>, and the one
  of the dashboard, on a document's list, which may be missing.
\<close>

definition getSignatureProgress :: "document_signatories_row list \<Rightarrow> int" where
  "getSignatureProgress sigs =
     (if length sigs = 0 then 0
      else (let completedSignatures = int (length (filter is_signed sigs))
            in Math_round (js_mul (js_div completedSignatures (int (length sigs))) 100)))"

record progress =
  signed :: int
  total :: int
  percentage :: int

definition dashboard_getSignatureProgress :: "document_signatories_row list option \<Rightarrow> progress" where
  "dashboard_getSignatureProgress sigs =
     (case sigs of None \<Rightarrow> \<lparr>signed = 0, total = 0, percentage = 0\<rparr>
      | Some xs \<Rightarrow>
          if length xs = 0 then \<lparr>signed = 0, total = 0, percentage = 0\<rparr>
          else (let sg = int (length (filter is_signed xs)); tt = int (length xs)
                in \<lparr>signed = sg, total = tt,
                    percentage = (if tt > 0 then Math_round (js_mul (js_div sg tt) 100) else 0)\<rparr>))"


section \<open>Document creation (the CreateDocument page)\<close>

record file_handle =
  file_name :: string
  file_size :: nat
  file_type :: string

text \<open>
  The object path \<^verbatim>\<open>`${user.id}/${Date.now()}.${fileExt}`\<close>, kept as its three parts. The
  public URL of an object is a function of its path, and is written as the path.
\<close>

record storage_path =
  sp_user :: uuid
  sp_time :: nat
  sp_ext :: string

record uploaded_file =
  uf_name :: string
  uf_url :: storage_path
  uf_path :: storage_path

text \<open>
  The text typed into the form is a JavaScript string, a sequence of UTF-16 code units:
  its length counts code units and \<^verbatim>\<open>trim\<close> looks at them. \<open>utf16\<close> writes an ASCII
  literal as such a string.
\<close>

type_synonym js_string = "nat list"

definition utf16 :: "string \<Rightarrow> js_string" where
  "utf16 s = map of_char s"

record signatory_input =
  si_name :: js_string
  si_position :: js_string
  si_email :: js_string
  si_phone :: js_string
  si_order_index :: nat

record form_data =
  f_name :: js_string
  f_description :: js_string
  f_requires_admin_approval :: bool
  f_signatories :: "signatory_input list"

datatype toast = toast_error string | toast_success string

record documentData =
  dd_name :: js_string
  dd_description :: js_string
  dd_file_url :: storage_path
  dd_file_name :: string
  dd_created_by :: uuid
  dd_requires_admin_approval :: bool
  dd_status :: string

record signatoryData =
  sd_document_id :: uuid
  sd_name :: js_string
  sd_position :: "js_string option"
  sd_email :: "js_string option"
  sd_phone :: "js_string option"
  sd_order_index :: nat
  sd_is_signed :: bool

record create_store =
  cs_storage :: "storage_path list"
  cs_documents :: "(uuid \<times> documentData) list"
  cs_signatories :: "signatoryData list"
  cs_activity :: "document_activity_row list"

record create_state =
  form :: form_data
  uploadedFile :: "uploaded_file option"
  loading :: bool
  uploading :: bool
  toasts :: "toast list"
  navigated_to :: "uuid option"

definition defaultValues :: form_data where
  "defaultValues =
     \<lparr>f_name = [], f_description = [], f_requires_admin_approval = False,
      f_signatories = [\<lparr>si_name = [], si_position = [], si_email = [], si_phone = [],
                        si_order_index = 0\<rparr>]\<rparr>"

definition allowedTypes :: "string list" where
  "allowedTypes =
     [''application/pdf'', ''application/msword'',
      ''application/vnd.openxmlformats-officedocument.wordprocessingml.document'',
      ''image/png'', ''image/jpeg'', ''image/jpg'']"

text \<open>\<^verbatim>\<open>file.name.split('.').pop()\<close>: what follows the last dot, or the whole name.\<close>

definition split_pop :: "string \<Rightarrow> string" where
  "split_pop s = rev (takeWhile (\<lambda>c. c \<noteq> CHR ''.'') (rev s))"

definition add_toast :: "toast \<Rightarrow> create_state \<Rightarrow> create_state" where
  "add_toast t st = st\<lparr>toasts := toasts st @ [t]\<rparr>"

text \<open>
  \<^verbatim>\<open>handleFileUpload\<close>: \<open>chosen\<close> is \<^verbatim>\<open>event.target.files[0]\<close>, \<open>upload_error\<close> the error of
  the storage upload, if any.
\<close>

definition handleFileUpload ::
  "uuid \<Rightarrow> nat \<Rightarrow> string option \<Rightarrow> file_handle option \<Rightarrow> create_store \<times> create_state \<Rightarrow>
   create_store \<times> create_state" where
  "handleFileUpload user_id now upload_error chosen a =
     (let store = fst a; st = snd a
      in case chosen of None \<Rightarrow> a
         | Some f \<Rightarrow>
             if file_size f > 10 * 1024 * 1024
               then (store, add_toast (toast_error ''File size must be less than 10MB'') st)
             else if file_type f \<notin> set allowedTypes
               then (store, add_toast
                       (toast_error ''Only PDF, DOC, DOCX, PNG, and JPG files are allowed'') st)
             else
               (let fileName = \<lparr>sp_user = user_id, sp_time = now, sp_ext = split_pop (file_name f)\<rparr>
                in case upload_error of
                     Some msg \<Rightarrow>
                       (store, (add_toast (toast_error (''Failed to upload file: '' @ msg)) st)
                                 \<lparr>uploading := False\<rparr>)
                   | None \<Rightarrow>
                       (store\<lparr>cs_storage := cs_storage store @ [fileName]\<rparr>,
                        (add_toast (toast_success ''File uploaded successfully!'')
                           (st\<lparr>uploadedFile :=
                                 Some \<lparr>uf_name = file_name f, uf_url = fileName, uf_path = fileName\<rparr>\<rparr>))
                          \<lparr>uploading := False\<rparr>)))"

definition addSignatory :: "create_state \<Rightarrow> create_state" where
  "addSignatory st =
     st\<lparr>form := (form st)\<lparr>f_signatories := f_signatories (form st) @
            [\<lparr>si_name = [], si_position = [], si_email = [], si_phone = [],
              si_order_index = length (f_signatories (form st))\<rparr>]\<rparr>\<rparr>"

definition removeSignatory :: "nat \<Rightarrow> create_state \<Rightarrow> create_state" where
  "removeSignatory index st =
     (if length (f_signatories (form st)) > 1
      then add_toast (toast_success ''Signatory removed'')
             (st\<lparr>form := (form st)\<lparr>f_signatories :=
                    take index (f_signatories (form st)) @
                    drop (Suc index) (f_signatories (form st))\<rparr>\<rparr>)
      else add_toast (toast_error ''At least one signatory is required'') st)"

text \<open>
  The rules registered on the form: the document name is required and has at least 3
  characters, each signatory's name is required. \<^verbatim>\<open>handleSubmit\<close> calls \<^verbatim>\<open>onSubmit\<close>
  only when no rule fails; a required text field fails on the empty string.
\<close>

datatype field_ref = document_name_field | signatory_name_field nat

definition validate_name :: "js_string \<Rightarrow> (field_ref \<times> string) list" where
  "validate_name n =
     (if n = [] then [(document_name_field, ''Document name is required'')]
      else if length n < 3 then [(document_name_field, ''Name must be at least 3 characters'')]
      else [])"

definition validate_signatories :: "signatory_input list \<Rightarrow> (field_ref \<times> string) list" where
  "validate_signatories sigs =
     map (\<lambda>p. (signatory_name_field (fst p), ''Name is required''))
       (filter (\<lambda>p. si_name (snd p) = []) (enumerate 0 sigs))"

definition validate_form :: "form_data \<Rightarrow> (field_ref \<times> string) list" where
  "validate_form d = validate_name (f_name d) @ validate_signatories (f_signatories d)"

text \<open>
  \<^verbatim>\<open>String.prototype.trim\<close> removes the white space and the line terminators of
  ECMAScript at both ends: TAB, LF, VT, FF, CR, SPACE, U+00A0, U+1680, U+2000 to U+200A,
  U+2028, U+2029, U+202F, U+205F, U+3000 and U+FEFF. Each is one code unit.
\<close>

definition is_space :: "nat \<Rightarrow> bool" where
  "is_space c =
     (c \<in> set [0x09, 0x0A, 0x0B, 0x0C, 0x0D, 0x20, 0xA0, 0x1680, 0x2028, 0x2029, 0x202F,
                0x205F, 0x3000, 0xFEFF]
      \<or> (0x2000 \<le> c \<and> c \<le> 0x200A))"

definition trim :: "js_string \<Rightarrow> js_string" where
  "trim s = rev (dropWhile is_space (rev (dropWhile is_space s)))"

text \<open>\<^verbatim>\<open>s || null\<close> on a string.\<close>

definition or_null :: "js_string \<Rightarrow> js_string option" where
  "or_null s = (if s = [] then None else Some s)"

text \<open>
  \<^verbatim>\<open>onSubmit(data)\<close>. \<open>doc_result\<close> is the answer to the insert into \<^verbatim>\<open>documents\<close>: an
  error message, or the id of the new row. \<open>sig_error\<close> is the error of the insert into
  \<^verbatim>\<open>document_signatories\<close>; \<open>act_error\<close> that of the insert into
  \<^verbatim>\<open>document_activity\<close>, which the code does not look at.
\<close>

definition onSubmit ::
  "uuid \<Rightarrow> (string + uuid) \<Rightarrow> string option \<Rightarrow> string option \<Rightarrow> form_data \<Rightarrow>
   create_store \<times> create_state \<Rightarrow> create_store \<times> create_state" where
  "onSubmit user_id doc_result sig_error act_error data a =
     (let store = fst a; st = snd a
      in case uploadedFile st of
           None \<Rightarrow> (store, add_toast (toast_error ''Please upload a document file'') st)
         | Some uf \<Rightarrow>
           (case doc_result of
              Inl msg \<Rightarrow>
                (store, (add_toast (toast_error (''Failed to create document tracker: '' @ msg)) st)
                          \<lparr>loading := False\<rparr>)
            | Inr new_id \<Rightarrow>
              (let store1 = store\<lparr>cs_documents := cs_documents store @
                       [(new_id, \<lparr>dd_name = f_name data, dd_description = f_description data,
                                  dd_file_url = uf_url uf, dd_file_name = uf_name uf,
                                  dd_created_by = user_id,
                                  dd_requires_admin_approval = f_requires_admin_approval data,
                                  dd_status = ''pending''\<rparr>)]\<rparr>;
                   signatoryData =
                     (if length (f_signatories data) > 0
                      then map (\<lambda>p. \<lparr>sd_document_id = new_id, sd_name = si_name (snd p),
                                      sd_position = or_null (si_position (snd p)),
                                      sd_email = or_null (si_email (snd p)),
                                      sd_phone = or_null (si_phone (snd p)),
                                      sd_order_index = fst p, sd_is_signed = False\<rparr>)
                             (enumerate 0 (filter (\<lambda>sig. trim (si_name sig) \<noteq> []) (f_signatories data)))
                      else [])
               in if length signatoryData > 0 \<and> sig_error \<noteq> None
                  then (store1,
                        (add_toast (toast_error (''Failed to create document tracker: ''
                                                  @ (case sig_error of Some msg \<Rightarrow> msg | None \<Rightarrow> []))) st)
                          \<lparr>loading := False\<rparr>)
                  else
                    (let store2 = store1\<lparr>cs_signatories := cs_signatories store1 @ signatoryData\<rparr>;
                         store3 = (if act_error = None
                            then store2\<lparr>cs_activity := cs_activity store2 @
                                   [\<lparr>a_document_id = new_id, a_user_id = user_id,
                                     a_action = ''created'',
                                     a_description = ''Document tracker created''\<rparr>]\<rparr>
                            else store2)
                     in (store3,
                         (add_toast (toast_success ''Document tracker created successfully!'') st)
                           \<lparr>loading := False, navigated_to := Some new_id\<rparr>)))))"

text \<open>
  Pressing the submit button: the form's rules first, then \<^verbatim>\<open>onSubmit\<close> on the form's
  values. The result carries the messages shown next to the fields.
\<close>

definition handleSubmit ::
  "uuid \<Rightarrow> (string + uuid) \<Rightarrow> string option \<Rightarrow> string option \<Rightarrow>
   create_store \<times> create_state \<Rightarrow> (field_ref \<times> string) list \<times> create_store \<times> create_state" where
  "handleSubmit user_id doc_result sig_error act_error a =
     (let errors = validate_form (form (snd a))
      in if errors = [] then ([], onSubmit user_id doc_result sig_error act_error (form (snd a)) a)
         else (errors, a))"

section \<open>Example data\<close>

definition example_users :: "users_row list" where
  "example_users =
     [\<lparr>u_id = 1, u_email = ''a@club.org'', u_full_name = ''Asha'', u_role = ''member''\<rparr>,
      \<lparr>u_id = 2, u_email = ''b@club.org'', u_full_name = ''Bao'', u_role = ''admin''\<rparr>,
      \<lparr>u_id = 3, u_email = ''c@club.org'', u_full_name = ''Chen'', u_role = ''member''\<rparr>]"

definition example_document :: documents_row where
  "example_document =
     \<lparr>d_id = 10, d_name = ''Budget Request'', d_created_by = Some 1,
      d_requires_admin_approval = Some True, d_admin_approved = None,
      d_admin_approved_by = None, d_status = ''pending''\<rparr>"

definition signatory_example :: "bool \<Rightarrow> document_signatories_row" where
  "signatory_example b =
     \<lparr>s_id = 1, s_document_id = Some 10, s_name = ''Dean'', s_position = None,
      s_email = None, s_phone = None, s_is_signed = Some b, s_signed_at = None,
      s_notes = None, s_order_index = 0, s_created_at = Some 5, s_updated_at = Some 5\<rparr>"

definition example_database :: database where
  "example_database =
     \<lparr>tbl_users = example_users, tbl_documents = [example_document],
      tbl_document_signatories = [signatory_example False],
      tbl_document_comments = [], tbl_document_activity = [], tbl_notifications = []\<rparr>"





definition example_notification :: "uuid \<Rightarrow> bool \<Rightarrow> notification" where
  "example_notification i r =
     \<lparr>nt_id = i, nt_user_id = 1, nt_title = ''New Document Created'', nt_read = r,
      nt_created_at = i\<rparr>"

definition example_app :: "bool \<Rightarrow> app" where
  "example_app r =
     ([example_notification 1 r, example_notification 2 False],
      \<lparr>notifications = [example_notification 1 r, example_notification 2 False],
       unreadCount = (if r then 1 else 2), user = Some 1\<rparr>)"

definition example_single_app :: app where
  "example_single_app =
     ([example_notification 1 False],
      \<lparr>notifications = [example_notification 1 False], unreadCount = 1, user = Some 1\<rparr>)"

definition example_push_state :: push_state where
  "example_push_state =
     \<lparr>push_user = Some 1, serviceWorkerRegistration = True, pushSubscription = None,
      push_toasts = []\<rparr>"

definition example_subscription :: "string \<Rightarrow> string \<Rightarrow> subscriptionData" where
  "example_subscription k a = \<lparr>endpoint = ''https://push.example/ep1'', p256dh = k, auth = a\<rparr>"

definition example_signatory_record :: "bool \<Rightarrow> sql_value \<Rightarrow> pg_record" where
  "example_signatory_record sg ts =
     [(''id'', VUuid 20), (''document_id'', VUuid 10), (''name'', VText ''Dean''),
      (''position'', VText ''Dean of Students''), (''email'', VNull), (''phone'', VNull),
      (''is_signed'', VBool sg), (''signed_at'', ts), (''notes'', VText []),
      (''order_index'', VInt 0), (''created_at'', VTimestamp 5), (''updated_at'', VTimestamp 5)]"

definition example_upload :: uploaded_file where
  "example_upload =
     \<lparr>uf_name = ''budget.pdf'',
      uf_url = \<lparr>sp_user = 1, sp_time = 1000, sp_ext = ''pdf''\<rparr>,
      uf_path = \<lparr>sp_user = 1, sp_time = 1000, sp_ext = ''pdf''\<rparr>\<rparr>"

definition empty_create_store :: create_store where
  "empty_create_store = \<lparr>cs_storage = [], cs_documents = [], cs_signatories = [], cs_activity = []\<rparr>"

definition example_create_state ::
  "js_string \<Rightarrow> signatory_input list \<Rightarrow> uploaded_file option \<Rightarrow> create_state" where
  "example_create_state n sigs uf =
     \<lparr>form = \<lparr>f_name = n, f_description = [], f_requires_admin_approval = False,
              f_signatories = sigs\<rparr>,
      uploadedFile = uf, loading = False, uploading = False, toasts = [], navigated_to = None\<rparr>"

definition example_signatory_input :: "js_string \<Rightarrow> signatory_input" where
  "example_signatory_input n =
     \<lparr>si_name = n, si_position = [], si_email = [], si_phone = [], si_order_index = 0\<rparr>"

definition big_file :: file_handle where
  "big_file = \<lparr>file_name = ''scan.pdf'', file_size = 10485761, file_type = ''application/pdf''\<rparr>"

section \<open>Document creation notifies every other user\<close>

lemma check_notifications_map:
  assumes "ty \<in> set notification_types"
  shows "check_notifications
           (map (\<lambda>u. \<lparr>nn_user_id = Some (u_id u), nn_document_id = d, nn_title = Some t,
                       nn_message = Some m, nn_type = Some ty, nn_data = dat\<rparr>) us)
         = Inr (map (\<lambda>u. \<lparr>n_user_id = u_id u, n_document_id = d, n_title = t, n_message = m,
                           n_type = ty, n_data = dat, n_read = False\<rparr>) us)"
  using assms by (induction us) (simp_all add: check_notification_def)

lemma select_full_name_found:
  assumes "U \<in> set (map u_id (tbl_users db))"
  shows "\<exists>name. select_full_name db (Some U) = Some name"
proof -
  from assms have "find (\<lambda>u. Some (u_id u) = Some U) (tbl_users db) \<noteq> None"
    by (auto simp: find_None_iff)
  then show ?thesis
    by (auto simp: select_full_name_def)
qed

lemma length_filter_other:
  assumes "distinct xs" and "x \<in> set xs"
  shows "length (filter (\<lambda>y. y \<noteq> x) xs) = length xs - 1"
proof -
  have "filter (\<lambda>y. y \<noteq> x) xs = remove1 x xs"
    using assms(1) by (induction xs) (auto simp: filter_id_conv)
  then show ?thesis
    using assms(2) by (simp add: length_remove1)
qed

text \<open>
  Claim C3. The ids of \<^verbatim>\<open>users\<close> are distinct (primary key) and \<open>U\<close>, the creator of the
  new document, is one of them. Then the trigger of document creation succeeds and
  appends rows to \<^verbatim>\<open>notifications\<close> whose recipients are the ids of the other users,
  each once and in the order of the table: \<open>|Users| - 1\<close> rows, every one of type
  \<^verbatim>\<open>document_created\<close>, referring to the new document, unread, and none for \<open>U\<close>.
\<close>

theorem notify_document_created_rows:
  assumes "distinct (map u_id (tbl_users db))"
    and "U \<in> set (map u_id (tbl_users db))"
    and "d_created_by NEW = Some U"
  shows "\<exists>rows. notify_document_created db NEW
             = Inr (db\<lparr>tbl_notifications := tbl_notifications db @ rows\<rparr>)
         \<and> map n_user_id rows = filter (\<lambda>i. i \<noteq> U) (map u_id (tbl_users db))
         \<and> distinct (map n_user_id rows)
         \<and> length rows = length (tbl_users db) - 1
         \<and> list_all (\<lambda>r. n_type r = ''document_created'' \<and> n_document_id r = Some (d_id NEW)
                          \<and> n_user_id r \<noteq> U \<and> \<not> n_read r) rows"
proof -
  obtain name where name: "select_full_name db (Some U) = Some name"
    using select_full_name_found [OF assms(2)] by blast
  let ?others = "filter (\<lambda>u. u_id u \<noteq> U) (tbl_users db)"
  let ?m = "name @ '' created a new document: '' @ d_name NEW"
  let ?dat = "[(''document_name'', JString (d_name NEW)), (''creator'', JString name)]"
  let ?rows = "map (\<lambda>u. \<lparr>n_user_id = u_id u, n_document_id = Some (d_id NEW),
                            n_title = ''New Document Created'', n_message = ?m,
                            n_type = ''document_created'', n_data = ?dat, n_read = False\<rparr>) ?others"
  have ty: "''document_created'' \<in> set notification_types"
    by (simp add: notification_types_def)
  have run: "notify_document_created db NEW
      = Inr (db\<lparr>tbl_notifications := tbl_notifications db @ ?rows\<rparr>)"
    by (simp add: notify_document_created_def create_notification_for_users_def
        insert_notifications_def assms(3) name text_concat_def coalesce_def jsonb_text_def
        check_notifications_map [OF ty])
  have ids: "map n_user_id ?rows = filter (\<lambda>i. i \<noteq> U) (map u_id (tbl_users db))"
    by (simp add: filter_map comp_def)
  have dist: "distinct (map n_user_id ?rows)"
    unfolding ids using assms(1) by simp
  have "length ?rows = length (filter (\<lambda>i. i \<noteq> U) (map u_id (tbl_users db)))"
    using ids by (metis length_map)
  then have len: "length ?rows = length (tbl_users db) - 1"
    using length_filter_other [OF assms(1) assms(2)] by simp
  have each: "list_all (\<lambda>r. n_type r = ''document_created'' \<and> n_document_id r = Some (d_id NEW)
                          \<and> n_user_id r \<noteq> U \<and> \<not> n_read r) ?rows"
    by (simp add: list_all_iff)
  from run ids dist len each show ?thesis
    by blast
qed

theorem notify_document_created_rows_witness:
  "distinct (map u_id (tbl_users example_database))
   \<and> 1 \<in> set (map u_id (tbl_users example_database))
   \<and> d_created_by example_document = Some 1
   \<and> (\<exists>rows. notify_document_created example_database example_document
               = Inr (example_database\<lparr>tbl_notifications := rows\<rparr>)
            \<and> map n_user_id rows = [2, 3] \<and> length rows = 2)"
proof -
  have h1: "distinct (map u_id (tbl_users example_database))"
    by (simp add: example_database_def example_users_def)
  have h2: "1 \<in> set (map u_id (tbl_users example_database))"
    by (simp add: example_database_def example_users_def)
  have h3: "d_created_by example_document = Some 1"
    by (simp add: example_document_def)
  have empty: "tbl_notifications example_database = []"
    by (simp add: example_database_def)
  have others: "filter (\<lambda>i. i \<noteq> 1) (map u_id (tbl_users example_database)) = [2, 3]"
    by (simp add: example_database_def example_users_def)
  from notify_document_created_rows [OF h1 h2 h3]
  obtain rows where
    run: "notify_document_created example_database example_document
       = Inr (example_database\<lparr>tbl_notifications := tbl_notifications example_database @ rows\<rparr>)"
    and ids: "map n_user_id rows = filter (\<lambda>i. i \<noteq> 1) (map u_id (tbl_users example_database))"
    by blast
  have a: "notify_document_created example_database example_document
       = Inr (example_database\<lparr>tbl_notifications := rows\<rparr>)"
    using run empty by simp
  have b: "map n_user_id rows = [2, 3]"
    using ids others by simp
  have c: "length rows = 2"
    using arg_cong [OF b, of length] by simp
  show ?thesis
    using h1 h2 h3 a b c by (intro conjI exI [of _ rows])
qed

section \<open>Signature progress\<close>

lemma progress_23_40: "Math_round (js_mul (js_div 23 40) 100) = 57"
  by code_simp

text \<open>
  Claim C9, at a document with 40 signatories of which 23 have signed. The quotient
  \<^verbatim>\<open>23 / 40\<close> is the number nearest to 0.575, which lies below it; its product with
  100 rounds to the number just below 57.5, and \<^verbatim>\<open>Math.round\<close> gives 57. The exact
  percentage is 57.5, which rounds to 58.
\<close>

theorem getSignatureProgress_23_of_40:
  "getSignatureProgress (replicate 23 (signatory_example True) @ replicate 17 (signatory_example False)) = 57
   \<and> round (100 * 23 / 40 :: real) = 58"
proof -
  have "getSignatureProgress (replicate 23 (signatory_example True) @ replicate 17 (signatory_example False))
      = Math_round (js_mul (js_div 23 40) 100)"
    by (simp add: getSignatureProgress_def is_signed_def signatory_example_def)
  moreover have "round (100 * 23 / 40 :: real) = 58"
    by (simp add: round_def)
  ultimately show ?thesis
    using progress_23_40 by simp
qed

section \<open>Approval changes\<close>

lemma notify_status_updated_same_value:
  "d_admin_approved NEW = d_admin_approved OLD \<Longrightarrow> notify_status_updated db actor OLD NEW = Inr db"
  by (simp add: notify_status_updated_def sql_ne_def split: option.splits)

text \<open>
  Claim C1, at a document whose approval value is unset (NULL) and which the admin with
  id 2 approves. \<^verbatim>\<open>OLD.admin_approved != NEW.admin_approved\<close> is then NULL, the IF is
  not taken, and the trigger returns with the table of notifications as it was: no
  \<^verbatim>\<open>status_updated\<close> row is inserted for the creator, the admins or the commenters.
\<close>

theorem notify_status_updated_from_unset:
  "d_admin_approved example_document = None
   \<and> notify_status_updated example_database (Some 2) example_document
        (example_document\<lparr>d_admin_approved := Some True, d_admin_approved_by := Some 2\<rparr>)
      = Inr example_database"
  by (simp add: notify_status_updated_def sql_ne_def example_document_def)

section \<open>Signature updates\<close>

lemma record_field_present:
  assumes "f \<in> set (map fst r)"
  shows "\<exists>v. record_field rname r f = Inr v"
proof -
  from assms have "map_of r f \<noteq> None"
    by (simp add: map_of_eq_None_iff)
  then show ?thesis
    by (auto simp: record_field_def)
qed

lemma record_field_absent:
  assumes "f \<notin> set (map fst r)"
  shows "record_field rname r f = Inl (undefined_field rname f)"
proof -
  from assms have "map_of r f = None"
    by (simp add: map_of_eq_None_iff)
  then show ?thesis
    by (simp add: record_field_def)
qed

text \<open>
  Claim C4. OLD and NEW are rows of \<^verbatim>\<open>document_signatories\<close>: their fields are the
  columns of that table, which has \<^verbatim>\<open>is_signed\<close> and \<^verbatim>\<open>signed_at\<close> and no
  \<^verbatim>\<open>status\<close>. The condition of the trigger reads \<^verbatim>\<open>OLD.status\<close>, so every update of a
  signatory row ends in the error that the record has no such field, whether the
  signed-time changed or not, and no notification is inserted.
\<close>

theorem notify_signature_updated_fails:
  assumes "map fst OLD = document_signatories_columns"
    and "map fst NEW = document_signatories_columns"
  shows "notify_signature_updated db OLD NEW = Inl (undefined_field ''old'' ''status'')"
proof -
  have "''signed_at'' \<in> set (map fst OLD)"
    unfolding assms(1) by (simp add: document_signatories_columns_def)
  then obtain v where v: "record_field ''old'' OLD ''signed_at'' = Inr v"
    using record_field_present by blast
  have "''signed_at'' \<in> set (map fst NEW)"
    unfolding assms(2) by (simp add: document_signatories_columns_def)
  then obtain w where w: "record_field ''new'' NEW ''signed_at'' = Inr w"
    using record_field_present by blast
  have "''status'' \<notin> set (map fst OLD)"
    unfolding assms(1) by (simp add: document_signatories_columns_def)
  then have s: "record_field ''old'' OLD ''status'' = Inl (undefined_field ''old'' ''status'')"
    by (rule record_field_absent)
  show ?thesis
    by (simp add: notify_signature_updated_def v w s)
qed

theorem notify_signature_updated_fails_witness:
  "map fst (example_signatory_record False VNull) = document_signatories_columns
   \<and> map fst (example_signatory_record True (VTimestamp 9)) = document_signatories_columns
   \<and> notify_signature_updated example_database (example_signatory_record False VNull)
        (example_signatory_record True (VTimestamp 9))
      = Inl (undefined_field ''old'' ''status'')"
proof -
  have h1: "map fst (example_signatory_record False VNull) = document_signatories_columns"
    by (simp add: example_signatory_record_def document_signatories_columns_def)
  have h2: "map fst (example_signatory_record True (VTimestamp 9)) = document_signatories_columns"
    by (simp add: example_signatory_record_def document_signatories_columns_def)
  from notify_signature_updated_fails [OF h1 h2, of example_database] h1 h2 show ?thesis
    by simp
qed

section \<open>The unread counter\<close>

lemma find_unread_count:
  assumes "find (\<lambda>n. nt_id n = i) xs = Some n" and "\<not> nt_read n"
  shows "1 \<le> int (length (filter (\<lambda>n. \<not> nt_read n) xs))"
proof -
  from assms(1) have "n \<in> set xs"
    by (auto simp: find_Some_iff)
  with assms(2) have "n \<in> set (filter (\<lambda>n. \<not> nt_read n) xs)"
    by simp
  then have "filter (\<lambda>n. \<not> nt_read n) xs \<noteq> []"
    by (metis empty_iff empty_set)
  then show ?thesis
    by (cases "filter (\<lambda>n. \<not> nt_read n) xs") simp_all
qed

lemma deleteNotification_nonneg:
  assumes "reconciled (snd a)"
  shows "0 \<le> unreadCount (snd (deleteNotification i (notifications (snd a)) e a))"
proof (cases e)
  case (Some msg)
  with assms show ?thesis
    by (simp add: deleteNotification_def reconciled_def cached_unread_def Let_def)
next
  case None
  show ?thesis
  proof (cases "find (\<lambda>n. nt_id n = i) (notifications (snd a))")
    case nf: None
    with None assms show ?thesis
      by (simp add: deleteNotification_def reconciled_def cached_unread_def Let_def)
  next
    case (Some n)
    show ?thesis
    proof (cases "nt_read n")
      case True
      with None Some assms show ?thesis
        by (simp add: deleteNotification_def reconciled_def cached_unread_def Let_def)
    next
      case False
      from find_unread_count [OF Some False]
      have "1 \<le> unreadCount (snd a)"
        using assms by (simp add: reconciled_def cached_unread_def)
      with None Some False show ?thesis
        by (simp add: deleteNotification_def Let_def)
    qed
  qed
qed

text \<open>
  With the handlers of the current render, every operation keeps the counter of a
  reconciled state at 0 or above.
\<close>

lemma unreadCount_nonneg_current_render:
  assumes "reconciled (snd a)" and "current_render operation a"
  shows "0 \<le> unreadCount (snd (run_operation operation a))"
proof (cases operation)
  case (LoadNotifications e)
  with assms(1) show ?thesis
    by (cases e) (simp_all add: loadNotifications_def reconciled_def cached_unread_def Let_def)
next
  case (MarkAsRead i e)
  with assms(1) show ?thesis
    by (cases e) (simp_all add: markAsRead_def reconciled_def cached_unread_def Let_def)
next
  case (MarkAllAsRead e)
  with assms(1) show ?thesis
    by (cases e) (simp_all add: markAllAsRead_def reconciled_def cached_unread_def Let_def)
next
  case (DeleteNotification i c e)
  with assms(2) have "c = notifications (snd a)"
    by (simp add: current_render_def)
  with DeleteNotification deleteNotification_nonneg [OF assms(1)] show ?thesis
    by simp
next
  case (ClearAllNotifications e)
  with assms(1) show ?thesis
    by (cases e) (simp_all add: clearAllNotifications_def reconciled_def cached_unread_def Let_def)
next
  case (InsertEvent n)
  with assms(1) show ?thesis
    by (simp add: on_insert_event_def reconciled_def cached_unread_def Let_def)
qed

text \<open>
  Claim C10, at a cache of one unread notification with the counter at 1, whose delete
  button is clicked twice before the page renders again: both handlers hold the array
  of that render. The first delete leaves the empty cache and the counter 0, a
  reconciled state. The second finds the notification unread in its captured array and
  decrements the current counter, with no lower bound: the counter is \<open>-1\<close>.
\<close>

theorem deleteNotification_twice_negative:
  "reconciled (snd example_single_app)
   \<and> reconciled (snd (run_operation
        (DeleteNotification 1 (notifications (snd example_single_app)) None) example_single_app))
   \<and> unreadCount (snd (run_operation
        (DeleteNotification 1 (notifications (snd example_single_app)) None)
        (run_operation
           (DeleteNotification 1 (notifications (snd example_single_app)) None)
           example_single_app))) = - 1"
  by (simp add: reconciled_def cached_unread_def deleteNotification_def example_single_app_def
      example_notification_def owned_by_def Let_def)

lemma reconciled_kept:
  assumes "reconciled (snd a)"
  shows "reconciled (snd (loadNotifications e a))"
    and "reconciled (snd (markAllAsRead e a))"
    and "reconciled (snd (clearAllNotifications e a))"
    and "\<not> nt_read n \<Longrightarrow> reconciled (snd (on_insert_event n a))"
proof -
  show "reconciled (snd (loadNotifications e a))"
    using assms by (cases e) (simp_all add: loadNotifications_def reconciled_def cached_unread_def Let_def)
  show "reconciled (snd (markAllAsRead e a))"
    using assms by (cases e) (simp_all add: markAllAsRead_def reconciled_def cached_unread_def Let_def comp_def)
  show "reconciled (snd (clearAllNotifications e a))"
    using assms by (cases e) (simp_all add: clearAllNotifications_def reconciled_def cached_unread_def Let_def)
  show "\<not> nt_read n \<Longrightarrow> reconciled (snd (on_insert_event n a))"
    using assms by (simp add: on_insert_event_def reconciled_def cached_unread_def Let_def)
qed

text \<open>
  Claim C2, at a reconciled cache of two notifications, the first read and the second
  unread, with the counter at 1. Marking the first one read again leaves the cache as
  it is and lowers the counter to 0, while one cached notification is still unread.
\<close>

theorem markAsRead_read_breaks_counter:
  "reconciled (snd (example_app True))
   \<and> unreadCount (snd (run_operation (MarkAsRead 1 None) (example_app True))) = 0
   \<and> cached_unread (snd (run_operation (MarkAsRead 1 None) (example_app True))) = 1
   \<and> \<not> reconciled (snd (run_operation (MarkAsRead 1 None) (example_app True)))"
  by (simp add: reconciled_def cached_unread_def markAsRead_def example_app_def
      example_notification_def Let_def)

lemma markAsRead_rows_idempotent:
  "fst (markAsRead i None (markAsRead i None a)) = fst (markAsRead i None a)
   \<and> notifications (snd (markAsRead i None (markAsRead i None a)))
       = notifications (snd (markAsRead i None a))"
  by (simp add: markAsRead_def Let_def owned_by_def comp_def)

lemma markAsRead_not_increasing:
  assumes "0 \<le> unreadCount (snd a)"
  shows "unreadCount (snd (markAsRead i e a)) \<le> unreadCount (snd a)"
  using assms by (cases e) (simp_all add: markAsRead_def Let_def)

lemma markAllAsRead_idempotent:
  "markAllAsRead None (markAllAsRead None a) = markAllAsRead None a"
  by (cases "user (snd a)") (simp_all add: markAllAsRead_def Let_def owned_by_def comp_def)

text \<open>
  Claim C5, at a reconciled cache of two unread notifications. Marking the first one
  read gives the counter 1; marking it read a second time changes neither the rows of
  the store nor the cache, and lowers the counter to 0: the state after two calls is
  not the state after one.
\<close>

theorem markAsRead_twice_differs:
  "unreadCount (snd (markAsRead 1 None (example_app False))) = 1
   \<and> unreadCount (snd (markAsRead 1 None (markAsRead 1 None (example_app False)))) = 0
   \<and> fst (markAsRead 1 None (markAsRead 1 None (example_app False)))
       = fst (markAsRead 1 None (example_app False))
   \<and> notifications (snd (markAsRead 1 None (markAsRead 1 None (example_app False))))
       = notifications (snd (markAsRead 1 None (example_app False)))
   \<and> markAsRead 1 None (markAsRead 1 None (example_app False))
       \<noteq> markAsRead 1 None (example_app False)"
  by (simp add: markAsRead_def example_app_def example_notification_def owned_by_def Let_def)

section \<open>Registering a push subscription twice\<close>

lemma upsert_existing_pair:
  assumes "\<not> list_ex (\<lambda>x. ps_id x = new_id) tbl"
    and "list_ex (\<lambda>x. ps_user_id x = uid \<and> ps_endpoint x = endpoint v) tbl"
  shows "upsert new_id uid v tbl = Inl (unique_violation ''push_subscriptions_user_id_endpoint_key'')"
  using assms by (auto simp: upsert_def same_pair_def list_ex_iff Let_def)

text \<open>
  Claim C6, for user 1 and one endpoint, registered first with the keys
  \<open>key1\<close>/\<open>auth1\<close> and then with \<open>key2\<close>/\<open>auth2\<close>. The second upsert collides on
  \<^verbatim>\<open>UNIQUE(user_id, endpoint)\<close> and is refused: the table keeps its one row, with the
  keys of the first call, and the client shows the failure message. A registration of
  the same subscription from a fresh page state is refused in the same way and leaves
  the page without its subscription.
\<close>

theorem setupPushSubscription_twice:
  "setupPushSubscription 101 (Some (example_subscription ''key2'' ''auth2''))
     (setupPushSubscription 100 (Some (example_subscription ''key1'' ''auth1''))
        ([], example_push_state))
   = ([\<lparr>ps_id = 100, ps_user_id = 1, ps_endpoint = ''https://push.example/ep1'',
        ps_p256dh = ''key1'', ps_auth = ''auth1''\<rparr>],
      example_push_state
        \<lparr>pushSubscription := Some (example_subscription ''key1'' ''auth1''),
         push_toasts := [''Failed to set up push notifications'']\<rparr>)
   \<and> setupPushSubscription 101 (Some (example_subscription ''key1'' ''auth1''))
     (fst (setupPushSubscription 100 (Some (example_subscription ''key1'' ''auth1''))
        ([], example_push_state)), example_push_state)
   = ([\<lparr>ps_id = 100, ps_user_id = 1, ps_endpoint = ''https://push.example/ep1'',
        ps_p256dh = ''key1'', ps_auth = ''auth1''\<rparr>],
      example_push_state\<lparr>push_toasts := [''Failed to set up push notifications'']\<rparr>)"
  by (simp add: setupPushSubscription_def upsert_def same_pair_def example_push_state_def
      example_subscription_def Let_def)

section \<open>Completing a document\<close>






section \<open>Rejected document-creation requests\<close>

text \<open>
  Claim C8, at a request with the name \<^verbatim>\<open>Budget Request\<close>, an uploaded file and one
  signatory whose name is a single space. The name is not the empty string, so the
  rule that requires it passes and no message is produced; \<^verbatim>\<open>onSubmit\<close> drops the
  signatory, whose trimmed name is empty, inserts the document row and no signatory
  row, and reports success: a document without signatories is committed.
\<close>

theorem blank_signatory_name_creates_document:
  "fst (handleSubmit 1 (Inr 10) None None
          (empty_create_store,
           example_create_state (utf16 ''Budget Request'') [example_signatory_input (utf16 '' '')]
             (Some example_upload))) = []
   \<and> map fst (cs_documents (fst (snd (handleSubmit 1 (Inr 10) None None
          (empty_create_store,
           example_create_state (utf16 ''Budget Request'') [example_signatory_input (utf16 '' '')]
             (Some example_upload)))))) = [10]
   \<and> cs_signatories (fst (snd (handleSubmit 1 (Inr 10) None None
          (empty_create_store,
           example_create_state (utf16 ''Budget Request'') [example_signatory_input (utf16 '' '')]
             (Some example_upload))))) = []
   \<and> toasts (snd (snd (handleSubmit 1 (Inr 10) None None
          (empty_create_store,
           example_create_state (utf16 ''Budget Request'') [example_signatory_input (utf16 '' '')]
             (Some example_upload)))))
       = [toast_success ''Document tracker created successfully!'']"
  by (simp add: handleSubmit_def onSubmit_def validate_form_def validate_name_def
      validate_signatories_def empty_create_store_def example_create_state_def
      example_upload_def example_signatory_input_def add_toast_def trim_def is_space_def
      utf16_def Let_def)

text \<open>
  The other invalid requests are refused before any write, each with its message.
\<close>

lemma handleFileUpload_rejects:
  assumes "file_size f > 10 * 1024 * 1024 \<or> file_type f \<notin> set allowedTypes"
  shows "handleFileUpload user_id now upload_error (Some f) (store, st)
     = (store, add_toast (toast_error
          (if file_size f > 10 * 1024 * 1024 then ''File size must be less than 10MB''
           else ''Only PDF, DOC, DOCX, PNG, and JPG files are allowed'')) st)"
  using assms by (auto simp: handleFileUpload_def Let_def)

lemma validate_signatories_empty_name:
  assumes "list_ex (\<lambda>s. si_name s = []) sigs"
  shows "validate_signatories sigs \<noteq> []"
proof -
  from assms obtain s where s: "s \<in> set sigs" "si_name s = []"
    by (auto simp: list_ex_iff)
  then obtain k where k: "k < length sigs" "sigs ! k = s"
    by (auto simp: in_set_conv_nth)
  then have "(k, s) \<in> set (enumerate 0 sigs)"
    by (simp add: in_set_enumerate_eq)
  with s(2) have "filter (\<lambda>p. si_name (snd p) = []) (enumerate 0 sigs) \<noteq> []"
    by (simp add: filter_empty_conv) (metis snd_conv)
  then show ?thesis
    by (simp add: validate_signatories_def)
qed

lemma validate_form_invalid:
  assumes "f_name d = [] \<or> length (f_name d) < 3 \<or> list_ex (\<lambda>s. si_name s = []) (f_signatories d)"
  shows "validate_form d \<noteq> []"
  using assms validate_signatories_empty_name
  by (auto simp: validate_form_def validate_name_def)

lemma validate_form_messages:
  "list_all (\<lambda>e. snd e \<in> set [''Document name is required'',
                                ''Name must be at least 3 characters'', ''Name is required''])
     (validate_form d)"
  by (auto simp: validate_form_def validate_name_def validate_signatories_def list_all_iff)

lemma handleSubmit_invalid:
  assumes "validate_form (form st) \<noteq> []"
  shows "handleSubmit user_id doc_result sig_error act_error (store, st)
     = (validate_form (form st), store, st)"
  using assms by (simp add: handleSubmit_def Let_def)

lemma handleSubmit_no_file:
  assumes "validate_form (form st) = []" and "uploadedFile st = None"
  shows "handleSubmit user_id doc_result sig_error act_error (store, st)
     = ([], store, add_toast (toast_error ''Please upload a document file'') st)"
  using assms by (simp add: handleSubmit_def onSubmit_def Let_def)

lemma removeSignatory_last:
  assumes "length (f_signatories (form st)) \<le> 1"
  shows "removeSignatory index st = add_toast (toast_error ''At least one signatory is required'') st"
  using assms by (simp add: removeSignatory_def)

text \<open>
  A file over 10 MiB or of a type outside the allow-list is refused
  by \<^verbatim>\<open>handleFileUpload\<close> with its message, and nothing else changes. A submission
  whose document name is empty or shorter than 3 characters, or with a signatory whose
  name is empty, is stopped by the form's rules: the messages are returned and store
  and state are unchanged. A valid submission without an uploaded file is refused with
  its message before any write. Removing the last signatory of the form is refused
  with its message.
\<close>

theorem invalid_requests_rejected:
  "(file_size f > 10 * 1024 * 1024 \<or> file_type f \<notin> set allowedTypes \<longrightarrow>
      handleFileUpload user_id now upload_error (Some f) (store_a, st_a)
        = (store_a, add_toast (toast_error
             (if file_size f > 10 * 1024 * 1024 then ''File size must be less than 10MB''
              else ''Only PDF, DOC, DOCX, PNG, and JPG files are allowed'')) st_a))
   \<and> (f_name (form st_b) = [] \<or> length (f_name (form st_b)) < 3
        \<or> list_ex (\<lambda>s. si_name s = []) (f_signatories (form st_b)) \<longrightarrow>
      handleSubmit user_id doc_result sig_error act_error (store_b, st_b)
        = (validate_form (form st_b), store_b, st_b)
      \<and> validate_form (form st_b) \<noteq> []
      \<and> list_all (\<lambda>e. snd e \<in> set [''Document name is required'',
                                ''Name must be at least 3 characters'', ''Name is required''])
          (validate_form (form st_b)))
   \<and> (validate_form (form st_c) = [] \<and> uploadedFile st_c = None \<longrightarrow>
      handleSubmit user_id doc_result sig_error act_error (store_c, st_c)
        = ([], store_c, add_toast (toast_error ''Please upload a document file'') st_c))
   \<and> (length (f_signatories (form st_d)) \<le> 1 \<longrightarrow>
      removeSignatory index st_d
        = add_toast (toast_error ''At least one signatory is required'') st_d)"
proof (intro conjI impI)
  assume "file_size f > 10 * 1024 * 1024 \<or> file_type f \<notin> set allowedTypes"
  then show "handleFileUpload user_id now upload_error (Some f) (store_a, st_a)
        = (store_a, add_toast (toast_error
             (if file_size f > 10 * 1024 * 1024 then ''File size must be less than 10MB''
              else ''Only PDF, DOC, DOCX, PNG, and JPG files are allowed'')) st_a)"
    by (rule handleFileUpload_rejects)
next
  assume a: "f_name (form st_b) = [] \<or> length (f_name (form st_b)) < 3
        \<or> list_ex (\<lambda>s. si_name s = []) (f_signatories (form st_b))"
  show "validate_form (form st_b) \<noteq> []"
    using a by (rule validate_form_invalid)
  then show "handleSubmit user_id doc_result sig_error act_error (store_b, st_b)
        = (validate_form (form st_b), store_b, st_b)"
    by (rule handleSubmit_invalid)
  show "list_all (\<lambda>e. snd e \<in> set [''Document name is required'',
                                ''Name must be at least 3 characters'', ''Name is required''])
          (validate_form (form st_b))"
    by (rule validate_form_messages)
next
  assume "validate_form (form st_c) = [] \<and> uploadedFile st_c = None"
  then show "handleSubmit user_id doc_result sig_error act_error (store_c, st_c)
        = ([], store_c, add_toast (toast_error ''Please upload a document file'') st_c)"
    by (simp add: handleSubmit_no_file)
next
  assume "length (f_signatories (form st_d)) \<le> 1"
  then show "removeSignatory index st_d
        = add_toast (toast_error ''At least one signatory is required'') st_d"
    by (rule removeSignatory_last)
qed

theorem invalid_requests_rejected_witness:
  "handleFileUpload 1 1000 None (Some big_file)
       (empty_create_store, example_create_state [] [example_signatory_input []] None)
     = (empty_create_store,
        add_toast (toast_error ''File size must be less than 10MB'')
          (example_create_state [] [example_signatory_input []] None))
   \<and> handleSubmit 1 (Inr 10) None None
       (empty_create_store, example_create_state [] [example_signatory_input []] (Some example_upload))
     = ([(document_name_field, ''Document name is required''),
         (signatory_name_field 0, ''Name is required'')],
        empty_create_store, example_create_state [] [example_signatory_input []] (Some example_upload))
   \<and> handleSubmit 1 (Inr 10) None None
       (empty_create_store, example_create_state (utf16 ''Budget Request'') [example_signatory_input (utf16 ''Dean'')] None)
     = ([], empty_create_store,
        add_toast (toast_error ''Please upload a document file'')
          (example_create_state (utf16 ''Budget Request'') [example_signatory_input (utf16 ''Dean'')] None))
   \<and> removeSignatory 0 (example_create_state (utf16 ''Budget Request'') [example_signatory_input (utf16 ''Dean'')] None)
     = add_toast (toast_error ''At least one signatory is required'')
         (example_create_state (utf16 ''Budget Request'') [example_signatory_input (utf16 ''Dean'')] None)"
proof -
  note T = invalid_requests_rejected [where f = big_file and user_id = 1 and now = 1000
      and upload_error = None and doc_result = "Inr 10" and sig_error = None and act_error = None
      and index = 0
      and store_a = empty_create_store and store_b = empty_create_store
      and store_c = empty_create_store
      and st_a = "example_create_state [] [example_signatory_input []] None"
      and st_b = "example_create_state [] [example_signatory_input []] (Some example_upload)"
      and st_c = "example_create_state (utf16 ''Budget Request'') [example_signatory_input (utf16 ''Dean'')] None"
      and st_d = "example_create_state (utf16 ''Budget Request'') [example_signatory_input (utf16 ''Dean'')] None"]
  have p1: "file_size big_file > 10 * 1024 * 1024 \<or> file_type big_file \<notin> set allowedTypes"
    by (simp add: big_file_def)
  have p2: "f_name (form (example_create_state [] [example_signatory_input []] (Some example_upload))) = []
      \<or> length (f_name (form (example_create_state [] [example_signatory_input []] (Some example_upload)))) < 3
      \<or> list_ex (\<lambda>s. si_name s = [])
          (f_signatories (form (example_create_state [] [example_signatory_input []] (Some example_upload))))"
    by (simp add: example_create_state_def)
  have p3: "validate_form (form (example_create_state (utf16 ''Budget Request'') [example_signatory_input (utf16 ''Dean'')] None)) = []
      \<and> uploadedFile (example_create_state (utf16 ''Budget Request'') [example_signatory_input (utf16 ''Dean'')] None) = None"
    by (simp add: example_create_state_def example_signatory_input_def validate_form_def
        validate_name_def validate_signatories_def utf16_def)
  have p4: "length (f_signatories (form
      (example_create_state (utf16 ''Budget Request'') [example_signatory_input (utf16 ''Dean'')] None))) \<le> 1"
    by (simp add: example_create_state_def)
  have v: "validate_form (form (example_create_state [] [example_signatory_input []] (Some example_upload)))
      = [(document_name_field, ''Document name is required''),
         (signatory_name_field 0, ''Name is required'')]"
    by (simp add: example_create_state_def example_signatory_input_def validate_form_def
        validate_name_def validate_signatories_def)
  from T p1 p2 p3 p4 v show ?thesis
    by (simp add: big_file_def)
qed

end
